theory Spec2Isabelle
  imports Complex_Main "HOL-Library.Multiset"
begin

section \<open>Python values\<close>

text \<open>
  The services pass around what \<^verbatim>\<open>json.loads\<close> produces: \<^verbatim>\<open>None\<close>, booleans,
  integers, floats, strings, lists and dicts with string keys.  A Python \<^verbatim>\<open>str\<close> is
  carried as its UTF-8 bytes.  A dict is an association list with distinct keys in
  insertion order.

  A float is carried by the exact value of the literal it was read from; no operation
  below computes with it, only its truth value is observed.
\<close>

datatype pyfloat = Literal rat | NaN | Infinity | NegInfinity

datatype json =
    JNull
  | JBool bool
  | JInt int
  | JFloat pyfloat
  | JStr string
  | JArr "json list"
  | JObj "(string \<times> json) list"

type_synonym dict = "(string \<times> json) list"

datatype error =
    TypeError
  | AttributeError
  | KeyError
  | ValueError
  | ValidationError
  | UnicodeDecodeError
  | RemoteDisconnected
  | InferenceError
  | HTTPException nat

text \<open>\<^verbatim>\<open>d.get(key)\<close> and \<^verbatim>\<open>d.get(key, default)\<close>.\<close>

definition get :: "dict \<Rightarrow> string \<Rightarrow> json" where
  "get d k = (case map_of d k of None \<Rightarrow> JNull | Some v \<Rightarrow> v)"

definition get_default :: "dict \<Rightarrow> string \<Rightarrow> json \<Rightarrow> json" where
  "get_default d k dflt = (case map_of d k of None \<Rightarrow> dflt | Some v \<Rightarrow> v)"

text \<open>\<^verbatim>\<open>d[key]\<close> raises \<^verbatim>\<open>KeyError\<close> on a missing key.\<close>

definition getitem :: "dict \<Rightarrow> string \<Rightarrow> error + json" where
  "getitem d k = (case map_of d k of None \<Rightarrow> Inl KeyError | Some v \<Rightarrow> Inr v)"

text \<open>
  Truth value of a Python object, as \<^verbatim>\<open>if not x\<close> and \<^verbatim>\<open>x or y\<close> test it.  A float
  literal denotes \<^verbatim>\<open>0.0\<close> when it rounds to zero, that is when its magnitude is at most
  half the smallest subnormal double.
\<close>

fun float_truthy :: "pyfloat \<Rightarrow> bool" where
  "float_truthy (Literal r) = (1 / 2 ^ 1075 < \<bar>r\<bar>)"
| "float_truthy NaN = True"
| "float_truthy Infinity = True"
| "float_truthy NegInfinity = True"

fun truthy :: "json \<Rightarrow> bool" where
  "truthy JNull = False"
| "truthy (JBool b) = b"
| "truthy (JInt i) = (i \<noteq> 0)"
| "truthy (JFloat f) = float_truthy f"
| "truthy (JStr s) = (s \<noteq> [])"
| "truthy (JArr xs) = (xs \<noteq> [])"
| "truthy (JObj d) = (d \<noteq> [])"

text \<open>\<^verbatim>\<open>x or y\<close>.\<close>

definition py_or :: "json \<Rightarrow> json \<Rightarrow> json" where
  "py_or x y = (if truthy x then x else y)"

text \<open>
  A byte \<open>c\<close> with \<open>in_range lo hi c\<close> has its value between the two bounds.  The
  characters of a string are its code points: each is a byte that continues none,
  followed by the continuation bytes (\<^verbatim>\<open>0x80\<close> to \<^verbatim>\<open>0xBF\<close>) that belong to it.
\<close>

definition in_range :: "nat \<Rightarrow> nat \<Rightarrow> char \<Rightarrow> bool" where
  "in_range lo hi c = (lo \<le> of_char c \<and> (of_char c :: nat) \<le> hi)"

fun characters :: "string \<Rightarrow> string \<Rightarrow> string list" where
  "characters current [] = (if current = [] then [] else [rev current])"
| "characters current (c # cs) =
     (if in_range 128 191 c then characters (c # current) cs
      else (if current = [] then [] else [rev current]) @ characters [c] cs)"

text \<open>
  \<^verbatim>\<open>for x in v\<close>: a list yields its elements, a string its characters, a dict its
  keys; anything else is not iterable.
\<close>

fun py_iter :: "json \<Rightarrow> error + json list" where
  "py_iter (JArr xs) = Inr xs"
| "py_iter (JStr s) = Inr (map JStr (characters [] s))"
| "py_iter (JObj d) = Inr (map (\<lambda>kv. JStr (fst kv)) d)"
| "py_iter JNull = Inl TypeError"
| "py_iter (JBool b) = Inl TypeError"
| "py_iter (JInt i) = Inl TypeError"
| "py_iter (JFloat f) = Inl TypeError"

fun is_dict :: "json \<Rightarrow> bool" where
  "is_dict (JObj d) = True"
| "is_dict _ = False"

fun is_str :: "json \<Rightarrow> bool" where
  "is_str (JStr s) = True"
| "is_str _ = False"

text \<open>A comprehension \<^verbatim>\<open>[f(x) for x in xs]\<close> stops at the first exception.\<close>

fun traverse :: "('a \<Rightarrow> error + 'b) \<Rightarrow> 'a list \<Rightarrow> error + 'b list" where
  "traverse f [] = Inr []"
| "traverse f (x # xs) =
     (case f x of
        Inl e \<Rightarrow> Inl e
      | Inr y \<Rightarrow> (case traverse f xs of Inl e \<Rightarrow> Inl e | Inr ys \<Rightarrow> Inr (y # ys)))"

subsection \<open>Strings\<close>

definition NL :: char where
  "NL = CHR 0x0A"

text \<open>\<^verbatim>\<open>sep.join(parts)\<close>.\<close>

fun join :: "string \<Rightarrow> string list \<Rightarrow> string" where
  "join sep [] = []"
| "join sep [x] = x"
| "join sep (x # y # ys) = x @ sep @ join sep (y # ys)"

text \<open>
  \<^verbatim>\<open>str.lower\<close> on the ASCII letters.  No code point outside ASCII lowers to a letter
  of the keys looked up below (\<^verbatim>\<open>critical\<close>, \<^verbatim>\<open>high\<close>, \<^verbatim>\<open>medium\<close>, \<^verbatim>\<open>low\<close>), so
  the lookups agree with Python's on every string.
\<close>

definition lower_char :: "char \<Rightarrow> char" where
  "lower_char c =
     (let n = (of_char c :: nat) in if 65 \<le> n \<and> n \<le> 90 then char_of (n + 32) else c)"

definition lower :: "string \<Rightarrow> string" where
  "lower s = map lower_char s"

text \<open>
  The code points \<^verbatim>\<open>str.isspace\<close> accepts, each in UTF-8: the ASCII ones (tab to
  carriage return, \<^verbatim>\<open>0x1c\<close> to \<^verbatim>\<open>0x1f\<close>, space), then U+0085, U+00A0, U+1680,
  U+2000 to U+200A, U+2028, U+2029, U+202F, U+205F and U+3000.
\<close>

definition whitespace :: "string list" where
  "whitespace =
     map (\<lambda>n. [char_of n]) ([9, 10, 11, 12, 13, 28, 29, 30, 31, 32] :: nat list) @
     [[CHR 0xC2, CHR 0x85], [CHR 0xC2, CHR 0xA0], [CHR 0xE1, CHR 0x9A, CHR 0x80]] @
     map (\<lambda>n. [CHR 0xE2, CHR 0x80, char_of n])
       ([128, 129, 130, 131, 132, 133, 134, 135, 136, 137, 138, 168, 169, 175] :: nat list) @
     [[CHR 0xE2, CHR 0x81, CHR 0x9F], [CHR 0xE3, CHR 0x80, CHR 0x80]]"

text \<open>
  \<open>head_len units t\<close>: the length of the first member of \<open>units\<close> that \<open>t\<close> starts
  with, 0 when there is none.
\<close>

definition head_len :: "string list \<Rightarrow> string \<Rightarrow> nat" where
  "head_len units t =
     (case filter (\<lambda>u. take (length u) t = u) units of [] \<Rightarrow> 0 | u # _ \<Rightarrow> length u)"

text \<open>
  \<open>lstrip_from units n t\<close> drops the members of \<open>units\<close> that \<open>t\<close> begins with, once the
  \<open>n\<close> bytes left of the member being dropped are gone.
\<close>

fun lstrip_from :: "string list \<Rightarrow> nat \<Rightarrow> string \<Rightarrow> string" where
  "lstrip_from units n [] = []"
| "lstrip_from units (Suc n) (c # cs) = lstrip_from units n cs"
| "lstrip_from units 0 (c # cs) =
     (case head_len units (c # cs) of
        0 \<Rightarrow> c # cs
      | Suc k \<Rightarrow> lstrip_from units k cs)"

text \<open>\<^verbatim>\<open>str.strip()\<close>: leading whitespace goes, then trailing whitespace.\<close>

definition strip :: "string \<Rightarrow> string" where
  "strip s = rev (lstrip_from (map rev whitespace) 0 (rev (lstrip_from whitespace 0 s)))"

text \<open>\<^verbatim>\<open>s.find(c)\<close> and \<^verbatim>\<open>s.rfind(c)\<close> for a one-character needle: the index, or -1.\<close>

fun index_of :: "char \<Rightarrow> string \<Rightarrow> nat option" where
  "index_of c [] = None"
| "index_of c (x # xs) = (if x = c then Some 0 else map_option Suc (index_of c xs))"

definition str_find :: "string \<Rightarrow> char \<Rightarrow> int" where
  "str_find s c = (case index_of c s of None \<Rightarrow> - 1 | Some i \<Rightarrow> int i)"

definition str_rfind :: "string \<Rightarrow> char \<Rightarrow> int" where
  "str_rfind s c =
     (case index_of c (rev s) of None \<Rightarrow> - 1 | Some i \<Rightarrow> int (length s) - 1 - int i)"

text \<open>\<^verbatim>\<open>s[start:end]\<close> for indices that are not negative.\<close>

definition slice :: "string \<Rightarrow> int \<Rightarrow> int \<Rightarrow> string" where
  "slice s start end = drop (nat start) (take (nat end) s)"

text \<open>\<^verbatim>\<open>d[key] = value\<close>: an existing key keeps its place.\<close>

fun dict_set :: "dict \<Rightarrow> string \<Rightarrow> json \<Rightarrow> dict" where
  "dict_set [] k v = [(k, v)]"
| "dict_set ((k', v') # d) k v = (if k' = k then (k, v) # d else (k', v') # dict_set d k v)"

text \<open>
  \<^verbatim>\<open>bytes.decode("utf-8")\<close> raises \<^verbatim>\<open>UnicodeDecodeError\<close> unless the bytes are
  well-formed UTF-8: no stray continuation byte, no overlong form, no surrogate, nothing
  above U+10FFFF.
\<close>

fun utf8_valid :: "string \<Rightarrow> bool" where
  "utf8_valid [] = True"
| "utf8_valid (a # rest) =
     (if in_range 0 127 a then utf8_valid rest
      else if in_range 194 223 a then
        (case rest of
           b # r \<Rightarrow> in_range 128 191 b \<and> utf8_valid r
         | _ \<Rightarrow> False)
      else if in_range 224 239 a then
        (case rest of
           b # c # r \<Rightarrow>
             in_range (if in_range 224 224 a then 160 else 128)
                      (if in_range 237 237 a then 159 else 191) b
             \<and> in_range 128 191 c \<and> utf8_valid r
         | _ \<Rightarrow> False)
      else if in_range 240 244 a then
        (case rest of
           b # c # d # r \<Rightarrow>
             in_range (if in_range 240 240 a then 144 else 128)
                      (if in_range 244 244 a then 143 else 191) b
             \<and> in_range 128 191 c \<and> in_range 128 191 d \<and> utf8_valid r
         | _ \<Rightarrow> False)
      else False)"

definition decode_utf8 :: "string \<Rightarrow> error + string" where
  "decode_utf8 bs = (if utf8_valid bs then Inr bs else Inl UnicodeDecodeError)"

section \<open>A reference reading of \<^verbatim>\<open>json.loads\<close>\<close>

text \<open>
  \<^verbatim>\<open>json.loads\<close> belongs to Python's library, and the services take it as a parameter
  (\<open>json_loads\<close> below).  To run them on concrete texts, \<open>json_loads_ref\<close> reads a document the
  way the library's decoder does: whitespace is space, tab, line feed and carriage
  return; a string may not hold a raw control character and knows the escapes
  \<^verbatim>\<open>\" \\ \/ \b \f \n \r \t \uXXXX\<close>, two \<^verbatim>\<open>\u\<close> escapes that form a surrogate
  pair giving one code point; a number without fraction and exponent is an integer, any
  other a float; \<^verbatim>\<open>NaN\<close>, \<^verbatim>\<open>Infinity\<close> and \<^verbatim>\<open>-Infinity\<close> are accepted; a key that
  occurs twice keeps its first place and its last value.  \<open>None\<close> stands for
  \<^verbatim>\<open>JSONDecodeError\<close>.
\<close>

datatype token = LBrace | RBrace | LBracket | RBracket | Colon | Comma | Scalar json

definition is_digit :: "char \<Rightarrow> bool" where
  "is_digit c = in_range 48 57 c"

definition digit_value :: "char \<Rightarrow> nat" where
  "digit_value c = of_char c - 48"

definition decimal :: "string \<Rightarrow> nat" where
  "decimal ds = foldl (\<lambda>n c. 10 * n + digit_value c) 0 ds"

definition hex_value :: "char \<Rightarrow> nat option" where
  "hex_value c =
     (if in_range 48 57 c then Some (of_char c - 48)
      else if in_range 65 70 c then Some (of_char c - 55)
      else if in_range 97 102 c then Some (of_char c - 87)
      else None)"

definition hex4 :: "string \<Rightarrow> nat option" where
  "hex4 t =
     (case map hex_value (take 4 t) of
        [Some a, Some b, Some c, Some d] \<Rightarrow> Some (((a * 16 + b) * 16 + c) * 16 + d)
      | _ \<Rightarrow> None)"

definition utf8_encode :: "nat \<Rightarrow> string" where
  "utf8_encode cp =
     (if cp < 128 then [char_of cp]
      else if cp < 2048 then [char_of (192 + cp div 64), char_of (128 + cp mod 64)]
      else if cp < 65536 then
        [char_of (224 + cp div 4096), char_of (128 + cp div 64 mod 64), char_of (128 + cp mod 64)]
      else
        [char_of (240 + cp div 262144), char_of (128 + cp div 4096 mod 64),
         char_of (128 + cp div 64 mod 64), char_of (128 + cp mod 64)])"

text \<open>
  The escape after a backslash: the bytes it stands for and how many bytes of the text
  it takes.
\<close>

definition unicode_escape :: "string \<Rightarrow> (string \<times> nat) option" where
  "unicode_escape t =
     (case hex4 t of
        None \<Rightarrow> None
      | Some hi \<Rightarrow>
          (case (if 55296 \<le> hi \<and> hi \<le> 56319 \<and> take 2 (drop 4 t) = [CHR 0x5C, CHR ''u'']
                 then hex4 (drop 6 t) else None) of
             None \<Rightarrow> Some (utf8_encode hi, 5)
           | Some lo \<Rightarrow>
               if 56320 \<le> lo \<and> lo \<le> 57343
               then Some (utf8_encode (65536 + (hi - 55296) * 1024 + (lo - 56320)), 11)
               else Some (utf8_encode hi, 5)))"

definition escape :: "string \<Rightarrow> (string \<times> nat) option" where
  "escape t =
     (case t of
        [] \<Rightarrow> None
      | c # cs \<Rightarrow>
          if c = CHR ''u'' then unicode_escape cs
          else map_option (\<lambda>b. ([b], 1))
                 (map_of [(CHR 0x22, CHR 0x22), (CHR 0x5C, CHR 0x5C), (CHR ''/'', CHR ''/''),
                          (CHR ''b'', CHR 0x08), (CHR ''f'', CHR 0x0C), (CHR ''n'', CHR 0x0A),
                          (CHR ''r'', CHR 0x0D), (CHR ''t'', CHR 0x09)] c))"

text \<open>
  \<open>scan_string n t\<close> reads a string whose opening quote is gone, the first \<open>n\<close> bytes
  of \<open>t\<close> being the rest of an escape already read: the string's bytes and the number
  of bytes of \<open>t\<close> up to and including the closing quote.
\<close>

fun scan_string :: "nat \<Rightarrow> string \<Rightarrow> (string \<times> nat) option" where
  "scan_string n [] = None"
| "scan_string (Suc n) (c # cs) = map_option (\<lambda>r. (fst r, Suc (snd r))) (scan_string n cs)"
| "scan_string 0 (c # cs) =
     (if c = CHR 0x22 then Some ([], 1)
      else if c = CHR 0x5C then
        (case escape cs of
           None \<Rightarrow> None
         | Some (bytes, k) \<Rightarrow>
             map_option (\<lambda>r. (bytes @ fst r, Suc (snd r))) (scan_string k cs))
      else if in_range 0 31 c then None
      else map_option (\<lambda>r. (c # fst r, Suc (snd r))) (scan_string 0 cs))"

text \<open>A number: sign, integer part without a leading zero, fraction, exponent.\<close>

definition number :: "string \<Rightarrow> json option" where
  "number run =
     (let negative = (take 1 run = ''-'');
          r1 = (if negative then drop 1 run else run);
          whole = takeWhile is_digit r1;
          r2 = dropWhile is_digit r1;
          has_frac = (take 1 r2 = ''.'');
          frac = (if has_frac then takeWhile is_digit (drop 1 r2) else []);
          r3 = (if has_frac then dropWhile is_digit (drop 1 r2) else r2);
          has_exp = (take 1 r3 = ''e'' \<or> take 1 r3 = ''E'');
          r4 = (if has_exp then drop 1 r3 else r3);
          exp_negative = (has_exp \<and> take 1 r4 = ''-'');
          r5 = (if has_exp \<and> (take 1 r4 = ''-'' \<or> take 1 r4 = ''+'') then drop 1 r4 else r4);
          exponent = (if has_exp then takeWhile is_digit r5 else []);
          r6 = (if has_exp then dropWhile is_digit r5 else r5);
          sign = (if negative then - 1 else 1)
      in if whole = [] then None
         else if 1 < length whole \<and> take 1 whole = ''0'' then None
         else if has_frac \<and> frac = [] then None
         else if has_exp \<and> exponent = [] then None
         else if r6 \<noteq> [] then None
         else if has_frac \<or> has_exp then
           Some (JFloat (Literal
             (of_int sign * of_nat (decimal (whole @ frac)) / 10 ^ length frac *
              (if exp_negative then 1 / 10 ^ decimal exponent else 10 ^ decimal exponent))))
         else Some (JInt (sign * int (decimal whole))))"

definition scalar :: "string \<Rightarrow> json option" where
  "scalar run =
     (if run = ''null'' then Some JNull
      else if run = ''true'' then Some (JBool True)
      else if run = ''false'' then Some (JBool False)
      else if run = ''NaN'' then Some (JFloat NaN)
      else if run = ''Infinity'' then Some (JFloat Infinity)
      else if run = ''-Infinity'' then Some (JFloat NegInfinity)
      else number run)"

definition is_word :: "char \<Rightarrow> bool" where
  "is_word c =
     (in_range 48 57 c \<or> in_range 65 90 c \<or> in_range 97 122 c \<or>
      c = CHR ''+'' \<or> c = CHR ''-'' \<or> c = CHR ''.'')"

text \<open>The token a text starts with, and its length in bytes.\<close>

definition next_token :: "string \<Rightarrow> (token \<times> nat) option" where
  "next_token t =
     (case t of
        [] \<Rightarrow> None
      | c # cs \<Rightarrow>
          (case map_of [(CHR ''{'', LBrace), (CHR ''}'', RBrace), (CHR ''['', LBracket),
                        (CHR '']'', RBracket), (CHR '':'', Colon), (CHR '','', Comma)] c of
             Some p \<Rightarrow> Some (p, 1)
           | None \<Rightarrow>
               if c = CHR 0x22 then
                 map_option (\<lambda>r. (Scalar (JStr (fst r)), Suc (snd r))) (scan_string 0 cs)
               else
                 (let run = takeWhile is_word t
                  in if run = [] then None
                     else map_option (\<lambda>v. (Scalar v, length run)) (scalar run))))"

definition json_space :: "char \<Rightarrow> bool" where
  "json_space c = (c = CHR '' '' \<or> c = CHR 0x09 \<or> c = CHR 0x0A \<or> c = CHR 0x0D)"

fun tokens_from :: "nat \<Rightarrow> string \<Rightarrow> token list option" where
  "tokens_from n [] = Some []"
| "tokens_from (Suc n) (c # cs) = tokens_from n cs"
| "tokens_from 0 (c # cs) =
     (if json_space c then tokens_from 0 cs
      else (case next_token (c # cs) of
              None \<Rightarrow> None
            | Some (tok, len) \<Rightarrow> map_option ((#) tok) (tokens_from (len - 1) cs)))"

text \<open>
  The tokens are read against a stack of the containers that are open: an array with
  its elements so far, an object with its pairs so far and the key that waits for its
  value.
\<close>

datatype frame = InArray "json list" | InObject dict "string option"

datatype expect =
    AValue | AValueOrEnd | AKeyOrEnd | AKey | AColon | ACommaOrEnd | Finished json

fun reduce :: "json \<Rightarrow> frame list \<Rightarrow> (expect \<times> frame list) option" where
  "reduce v [] = Some (Finished v, [])"
| "reduce v (InArray xs # st) = Some (ACommaOrEnd, InArray (xs @ [v]) # st)"
| "reduce v (InObject d (Some k) # st) = Some (ACommaOrEnd, InObject (dict_set d k v) None # st)"
| "reduce v (InObject d None # st) = None"

fun step :: "expect \<Rightarrow> frame list \<Rightarrow> token \<Rightarrow> (expect \<times> frame list) option" where
  "step AValue st (Scalar v) = reduce v st"
| "step AValue st LBracket = Some (AValueOrEnd, InArray [] # st)"
| "step AValue st LBrace = Some (AKeyOrEnd, InObject [] None # st)"
| "step AValueOrEnd st (Scalar v) = reduce v st"
| "step AValueOrEnd st LBracket = Some (AValueOrEnd, InArray [] # st)"
| "step AValueOrEnd st LBrace = Some (AKeyOrEnd, InObject [] None # st)"
| "step AValueOrEnd (InArray xs # st) RBracket = reduce (JArr xs) st"
| "step AKeyOrEnd (InObject d None # st) (Scalar (JStr k)) = Some (AColon, InObject d (Some k) # st)"
| "step AKeyOrEnd (InObject d None # st) RBrace = reduce (JObj d) st"
| "step AKey (InObject d None # st) (Scalar (JStr k)) = Some (AColon, InObject d (Some k) # st)"
| "step AColon st Colon = Some (AValue, st)"
| "step ACommaOrEnd (InArray xs # st) Comma = Some (AValue, InArray xs # st)"
| "step ACommaOrEnd (InArray xs # st) RBracket = reduce (JArr xs) st"
| "step ACommaOrEnd (InObject d None # st) Comma = Some (AKey, InObject d None # st)"
| "step ACommaOrEnd (InObject d None # st) RBrace = reduce (JObj d) st"
| "step _ _ _ = None"

fun run_tokens :: "expect \<Rightarrow> frame list \<Rightarrow> token list \<Rightarrow> json option" where
  "run_tokens ex st [] = (case ex of Finished v \<Rightarrow> Some v | _ \<Rightarrow> None)"
| "run_tokens ex st (t # ts) =
     (case step ex st t of None \<Rightarrow> None | Some (ex', st') \<Rightarrow> run_tokens ex' st' ts)"

definition json_loads_ref :: "string \<Rightarrow> json option" where
  "json_loads_ref s = (case tokens_from 0 s of None \<Rightarrow> None | Some ts \<Rightarrow> run_tokens AValue [] ts)"

section \<open>schemas/models.py\<close>

datatype UrgencyLevel = HIGH | MEDIUM | LOW

record KeyFinding =
  finding :: string
  detail :: string
  urgency :: UrgencyLevel
  source :: string

record ScanInsight =
  observation :: string
  region :: "string option"
  "note" :: string

record DoctorAnalysisResponse =
  patient_summary :: string
  key_findings :: "KeyFinding list"
  scan_insights :: "ScanInsight list"
  urgency_ranking :: "string list"
  disclaimer :: string

record PatientExplainResponse =
  simplified_explanation :: string
  disclaimer :: string

text \<open>
  \<^verbatim>\<open>UrgencyLevel(value)\<close> looks the member up by its value and raises
  \<^verbatim>\<open>ValueError\<close> when there is none.
\<close>

definition UrgencyLevel_of :: "json \<Rightarrow> error + UrgencyLevel" where
  "UrgencyLevel_of v =
     (if v = JStr ''high'' then Inr HIGH
      else if v = JStr ''medium'' then Inr MEDIUM
      else if v = JStr ''low'' then Inr LOW
      else Inl ValueError)"

text \<open>
  Field validation of the models: a \<^verbatim>\<open>str\<close> field takes a string and an
  \<^verbatim>\<open>Optional[str]\<close> field a string or \<^verbatim>\<open>None\<close>; any other JSON value is a
  \<^verbatim>\<open>ValidationError\<close>.
\<close>

fun str_field :: "json \<Rightarrow> error + string" where
  "str_field (JStr s) = Inr s"
| "str_field _ = Inl ValidationError"

fun optional_str_field :: "json \<Rightarrow> error + string option" where
  "optional_str_field (JStr s) = Inr (Some s)"
| "optional_str_field JNull = Inr None"
| "optional_str_field _ = Inl ValidationError"

section \<open>services/ai_service.py\<close>

text \<open>
  What the service reads from outside: the module-level switches, the flag set by
  \<^verbatim>\<open>load()\<close>, the legacy service behind \<^verbatim>\<open>urlopen\<close>, the model behind
  \<^verbatim>\<open>_run_inference\<close>, and two functions of Python's library, \<^verbatim>\<open>json.loads\<close>
  (\<open>None\<close> for \<^verbatim>\<open>JSONDecodeError\<close>) and \<^verbatim>\<open>str()\<close> of a value that is not a
  string.

  The \<^verbatim>\<open>with urlopen(...)\<close> block of \<^verbatim>\<open>_call_legacy_ai_backend\<close> ends in one of
  four ways: \<^verbatim>\<open>URLError\<close> (which \<^verbatim>\<open>HTTPError\<close> is a subclass of),
  \<^verbatim>\<open>TimeoutError\<close>, an exception of \<^verbatim>\<open>http.client\<close> that \<^verbatim>\<open>urlopen\<close> does
  not wrap (the peer closing the connection before it answers), or the bytes of the
  response body.
\<close>

datatype http_result = URLError | TimeoutError | RemoteDisconnected | Body string

datatype prompt = DOCTOR_SYSTEM_PROMPT | PATIENT_SYSTEM_PROMPT

record 'img env =
  AI_BACKEND_ENABLED :: bool
  FORCE_MOCK :: bool
  model_loaded :: bool
  urlopen :: "string \<Rightarrow> string \<Rightarrow> http_result"
  run_inference :: "prompt \<Rightarrow> string \<Rightarrow> 'img option \<Rightarrow> error + string"
  json_loads :: "string \<Rightarrow> json option"
  py_repr :: "json \<Rightarrow> string"

text \<open>\<^verbatim>\<open>str(v)\<close>.\<close>

definition py_str :: "(json \<Rightarrow> string) \<Rightarrow> json \<Rightarrow> string" where
  "py_str repr v = (case v of JStr s \<Rightarrow> s | _ \<Rightarrow> repr v)"

subsection \<open>Mock responses\<close>

definition mock_patient_summary :: string where
  "mock_patient_summary =
     ''[MOCK] This is a simulated summary. MedGemma is not loaded '' @
     ''(running in mock mode). The patient'' @ [CHR 0x27] @ ''s uploaded records have '' @
     ''been received and would normally be processed by the AI model.''"

definition mock_doctor_response :: dict where
  "mock_doctor_response =
     [(''patient_summary'', JStr mock_patient_summary),
      (''key_findings'', JArr
         [JObj [(''finding'', JStr ''[MOCK] Elevated Creatinine''),
                (''detail'', JStr ''Lab report indicates possible renal stress markers.''),
                (''urgency'', JStr ''high''),
                (''source'', JStr ''lab_report'')],
          JObj [(''finding'', JStr ''[MOCK] Hypertension History''),
                (''detail'', JStr ''Patient history notes long-standing hypertension.''),
                (''urgency'', JStr ''medium''),
                (''source'', JStr ''patient_history'')],
          JObj [(''finding'', JStr ''[MOCK] Routine Follow-up Due''),
                (''detail'', JStr ''Annual cardiology review overdue by 3 months.''),
                (''urgency'', JStr ''low''),
                (''source'', JStr ''prescription'')]]),
      (''scan_insights'', JArr
         [JObj [(''observation'', JStr ''[MOCK] Scan received and processed.''),
                (''region'', JStr ''Unknown (mock mode)''),
                (''note'', JStr ''Real scan analysis requires GPU and loaded MedGemma model.'')]]),
      (''urgency_ranking'', JArr
         [JStr ''[MOCK] Elevated Creatinine'',
          JStr ''[MOCK] Hypertension History'',
          JStr ''[MOCK] Routine Follow-up Due''])]"



subsection \<open>\<^verbatim>\<open>_normalize_legacy_doctor_payload\<close>\<close>

definition urgency_map :: "(string \<times> string) list" where
  "urgency_map =
     [(''critical'', ''high''), (''high'', ''high''), (''medium'', ''medium''), (''low'', ''low'')]"

definition rank_order :: "(json \<times> nat) list" where
  "rank_order = [(JStr ''high'', 0), (JStr ''medium'', 1), (JStr ''low'', 2)]"

text \<open>The dict appended for one element of \<^verbatim>\<open>abnormalities\<close> that is a dict.\<close>

definition legacy_finding :: "(json \<Rightarrow> string) \<Rightarrow> dict \<Rightarrow> dict" where
  "legacy_finding repr f =
     (let severity = lower (py_str repr (get_default f ''severity'' (JStr ''low'')))
      in [(''finding'', get_default f ''issue'' (JStr ''Unknown finding'')),
          (''detail'', get_default f ''explanation'' (JStr ''Derived from AI_Backend analysis.'')),
          (''urgency'', JStr (case map_of urgency_map severity of None \<Rightarrow> ''low'' | Some u \<Rightarrow> u)),
          (''source'', JStr ''legacy_ai_backend'')])"

text \<open>The loop over \<^verbatim>\<open>abnormalities\<close>: elements that are not dicts are skipped.\<close>

fun legacy_findings :: "(json \<Rightarrow> string) \<Rightarrow> json list \<Rightarrow> dict list" where
  "legacy_findings repr [] = []"
| "legacy_findings repr (JObj f # rest) = legacy_finding repr f # legacy_findings repr rest"
| "legacy_findings repr (_ # rest) = legacy_findings repr rest"

text \<open>
  The sort key \<^verbatim>\<open>rank_order.get(item.get("urgency", "low"), 99)\<close>.  \<^verbatim>\<open>list.sort\<close>
  is stable, and \<open>sort_key\<close> is the stable sort.
\<close>

definition legacy_rank :: "dict \<Rightarrow> nat" where
  "legacy_rank item =
     (case map_of rank_order (get_default item ''urgency'' (JStr ''low'')) of
        None \<Rightarrow> 99
      | Some r \<Rightarrow> r)"

definition legacy_data_of :: "json \<Rightarrow> dict" where
  "legacy_data_of payload =
     (case (case payload of JObj p \<Rightarrow> get p ''data'' | _ \<Rightarrow> JObj []) of
        JObj d \<Rightarrow> d
      | _ \<Rightarrow> [])"

definition normalize_legacy_doctor_payload :: "(json \<Rightarrow> string) \<Rightarrow> json \<Rightarrow> error + dict" where
  "normalize_legacy_doctor_payload repr payload =
     (let legacy_data = legacy_data_of payload
      in case py_iter (get_default legacy_data ''abnormalities'' (JArr [])) of
           Inl e \<Rightarrow> Inl e
         | Inr abnormalities \<Rightarrow>
             (let findings = sort_key legacy_rank (legacy_findings repr abnormalities);
                  summary = get legacy_data ''summary''
              in case (if truthy summary then Inr summary
                       else (case payload of
                               JObj p \<Rightarrow> Inr (py_or (get p ''response'') (JStr mock_patient_summary))
                             | _ \<Rightarrow> Inl AttributeError)) of
                   Inl e \<Rightarrow> Inl e
                 | Inr summary' \<Rightarrow>
                     (case traverse (\<lambda>item. getitem item ''finding'') findings of
                        Inl e \<Rightarrow> Inl e
                      | Inr titles \<Rightarrow>
                          Inr [(''patient_summary'', summary'),
                               (''key_findings'', JArr (map JObj findings)),
                               (''scan_insights'', JArr []),
                               (''urgency_ranking'', JArr titles)])))"

subsection \<open>\<^verbatim>\<open>_normalize_legacy_patient_payload\<close>\<close>



subsection \<open>\<^verbatim>\<open>_call_legacy_ai_backend\<close>\<close>

definition call_legacy_ai_backend :: "'img env \<Rightarrow> string \<Rightarrow> string \<Rightarrow> error + dict option" where
  "call_legacy_ai_backend e text mode =
     (if AI_BACKEND_ENABLED e then
        (case urlopen e text mode of
           URLError \<Rightarrow> Inr None
         | TimeoutError \<Rightarrow> Inr None
         | RemoteDisconnected \<Rightarrow> Inl error.RemoteDisconnected
         | Body bytes \<Rightarrow>
             (case decode_utf8 bytes of
                Inl err \<Rightarrow> Inl err
              | Inr body \<Rightarrow>
                  (case json_loads e body of
                     None \<Rightarrow> Inr None
                   | Some (JObj parsed) \<Rightarrow> Inr (Some parsed)
                   | Some _ \<Rightarrow> Inr None)))
      else Inr None)"

subsection \<open>\<^verbatim>\<open>_parse_json_response\<close>\<close>

text \<open>
  \<^verbatim>\<open>re.sub(r"```(?:json)?", "", raw, flags=re.IGNORECASE)\<close> deletes, from left to
  right, every run of three backticks together with a directly following \<^verbatim>\<open>json\<close>
  in any letter case.  Under \<^verbatim>\<open>IGNORECASE\<close> the pattern letter \<^verbatim>\<open>s\<close> also matches
  the long s, U+017F, whose UTF-8 form is the two bytes \<^verbatim>\<open>C5 BF\<close>.

  \<open>match_json\<close> gives the number of bytes the group \<^verbatim>\<open>(?:json)\<close> matches at the
  head of a text.
\<close>

definition match_s :: "string \<Rightarrow> nat option" where
  "match_s t =
     (case t of
        [] \<Rightarrow> None
      | c # cs \<Rightarrow>
          if lower_char c = CHR ''s'' then Some 1
          else if c = CHR 0xC5 \<and> take 1 cs = [CHR 0xBF] then Some 2
          else None)"

definition match_json :: "string \<Rightarrow> nat option" where
  "match_json t =
     (if map lower_char (take 1 t) = ''j'' then
        (case match_s (drop 1 t) of
           None \<Rightarrow> None
         | Some k \<Rightarrow>
             if map lower_char (take 2 (drop (1 + k) t)) = ''on'' then Some (1 + k + 2)
             else None)
      else None)"

text \<open>
  \<open>strip_fences_from n t\<close>: the text \<open>t\<close> with the matches deleted, where the first
  \<open>n\<close> bytes of \<open>t\<close> still belong to a match that began earlier.
\<close>

definition fence :: string where
  "fence = [CHR 0x60, CHR 0x60, CHR 0x60]"

fun strip_fences_from :: "nat \<Rightarrow> string \<Rightarrow> string" where
  "strip_fences_from n [] = []"
| "strip_fences_from (Suc n) (c # cs) = strip_fences_from n cs"
| "strip_fences_from 0 (c # cs) =
     (if take 3 (c # cs) = fence then
        strip_fences_from (2 + (case match_json (drop 2 cs) of None \<Rightarrow> 0 | Some k \<Rightarrow> k)) cs
      else c # strip_fences_from 0 cs)"

definition strip_fences :: "string \<Rightarrow> string" where
  "strip_fences raw = strip_fences_from 0 raw"

definition parse_json_response :: "(string \<Rightarrow> json option) \<Rightarrow> string \<Rightarrow> json \<Rightarrow> json" where
  "parse_json_response loads raw fallback =
     (let cleaned = strip (strip_fences raw);
          start = str_find cleaned (CHR ''{'');
          end = str_rfind cleaned (CHR ''}'') + 1
      in if start = - 1 \<or> end = 0 then fallback
         else (case loads (slice cleaned start end) of
                 None \<Rightarrow> fallback
               | Some parsed \<Rightarrow> parsed))"

subsection \<open>\<^verbatim>\<open>analyze_for_doctor\<close> and \<^verbatim>\<open>explain_for_patient\<close>\<close>

definition sections :: "string list \<Rightarrow> string list" where
  "sections parts = filter (\<lambda>section. section \<noteq> []) parts"

definition combined_text :: "string \<Rightarrow> string \<Rightarrow> string \<Rightarrow> string" where
  "combined_text patient_history prescriptions lab_reports =
     join [NL, NL]
       (sections
          [if patient_history \<noteq> [] then ''Patient History:'' @ [NL] @ patient_history else [],
           if prescriptions \<noteq> [] then ''Prescriptions:'' @ [NL] @ prescriptions else [],
           if lab_reports \<noteq> [] then ''Lab Reports:'' @ [NL] @ lab_reports else []])"

text \<open>The dash of the last heading is U+2013, three bytes in UTF-8.\<close>

definition doctor_user_message :: "string \<Rightarrow> string \<Rightarrow> string \<Rightarrow> 'img option \<Rightarrow> string" where
  "doctor_user_message patient_history prescriptions lab_reports scan_image =
     join [NL, NL]
       ((if patient_history \<noteq> [] then [''## Patient History'' @ [NL] @ patient_history] else []) @
        (if prescriptions \<noteq> [] then [''## Current / Past Prescriptions'' @ [NL] @ prescriptions]
         else []) @
        (if lab_reports \<noteq> [] then [''## Lab Reports'' @ [NL] @ lab_reports] else []) @
        (if scan_image \<noteq> None then
           [''## Scan Image'' @ [NL] @ ''[Image attached '' @ [CHR 0xE2, CHR 0x80, CHR 0x93] @
            '' please analyse]'']
         else []))"

definition analyze_for_doctor ::
  "'img env \<Rightarrow> string \<Rightarrow> string \<Rightarrow> string \<Rightarrow> 'img option \<Rightarrow> error + json" where
  "analyze_for_doctor e patient_history prescriptions lab_reports scan_image =
     (case call_legacy_ai_backend e (combined_text patient_history prescriptions lab_reports)
             ''doctor'' of
        Inl err \<Rightarrow> Inl err
      | Inr (Some legacy_payload) \<Rightarrow>
          (case normalize_legacy_doctor_payload (py_repr e) (JObj legacy_payload) of
             Inl err \<Rightarrow> Inl err
           | Inr legacy_result \<Rightarrow>
               Inr (JObj (if scan_image = None
                          then dict_set legacy_result ''scan_insights'' (JArr [])
                          else legacy_result)))
      | Inr None \<Rightarrow>
          if \<not> model_loaded e \<or> FORCE_MOCK e then
            Inr (JObj (if scan_image = None
                       then dict_set mock_doctor_response ''scan_insights'' (JArr [])
                       else mock_doctor_response))
          else
            (case run_inference e DOCTOR_SYSTEM_PROMPT
                    (doctor_user_message patient_history prescriptions lab_reports scan_image)
                    scan_image of
               Inl err \<Rightarrow> Inl err
             | Inr raw \<Rightarrow>
                 Inr (parse_json_response (json_loads e) raw (JObj mock_doctor_response))))"


section \<open>services/preprocessing.py\<close>

text \<open>
  \<^verbatim>\<open>str.splitlines()\<close> breaks a text at \<^verbatim>\<open>\r\n\<close>, at the ASCII controls
  \<^verbatim>\<open>\n\<close>, \<^verbatim>\<open>\v\<close>, \<^verbatim>\<open>\f\<close>, \<^verbatim>\<open>\r\<close>, \<^verbatim>\<open>0x1c\<close>, \<^verbatim>\<open>0x1d\<close>,
  \<^verbatim>\<open>0x1e\<close>, and at U+0085, U+2028 and U+2029; a text that ends with a line break has
  no empty last line.
\<close>

definition line_breaks :: "string list" where
  "line_breaks =
     [[CHR 0x0D, CHR 0x0A]] @
     map (\<lambda>n. [char_of n]) ([10, 11, 12, 13, 28, 29, 30] :: nat list) @
     [[CHR 0xC2, CHR 0x85], [CHR 0xE2, CHR 0x80, CHR 0xA8], [CHR 0xE2, CHR 0x80, CHR 0xA9]]"

fun splitlines_from :: "nat \<Rightarrow> string \<Rightarrow> string \<Rightarrow> string list" where
  "splitlines_from n line [] = (if line = [] then [] else [rev line])"
| "splitlines_from (Suc n) line (c # cs) = splitlines_from n line cs"
| "splitlines_from 0 line (c # cs) =
     (case head_len line_breaks (c # cs) of
        0 \<Rightarrow> splitlines_from 0 (c # line) cs
      | Suc k \<Rightarrow> rev line # splitlines_from k [] cs)"

definition splitlines :: "string \<Rightarrow> string list" where
  "splitlines raw = splitlines_from 0 [] raw"

definition clean_text :: "string \<Rightarrow> string" where
  "clean_text raw = join [NL] (map strip (filter (\<lambda>line. strip line \<noteq> []) (splitlines raw)))"

section \<open>routes/doctor.py\<close>

definition urgency_order :: "UrgencyLevel \<rightharpoonup> nat" where
  "urgency_order = [HIGH \<mapsto> 0, MEDIUM \<mapsto> 1, LOW \<mapsto> 2]"

text \<open>\<^verbatim>\<open>sorted\<close> is stable, and \<open>sort_key\<close> is the stable sort.\<close>

definition sort_findings_by_urgency :: "KeyFinding list \<Rightarrow> KeyFinding list" where
  "sort_findings_by_urgency findings =
     sort_key (\<lambda>f. case urgency_order (urgency f) of None \<Rightarrow> 99 | Some r \<Rightarrow> (r::nat)) findings"

text \<open>
  One \<^verbatim>\<open>KeyFinding(...)\<close> of the comprehension: \<^verbatim>\<open>f.get\<close> needs a dict,
  \<^verbatim>\<open>UrgencyLevel(...)\<close> a value of the enumeration, and the model's fields strings.
\<close>

definition make_key_finding :: "json \<Rightarrow> error + KeyFinding" where
  "make_key_finding f =
     (case f of
        JObj d \<Rightarrow>
          (case UrgencyLevel_of (get_default d ''urgency'' (JStr ''low'')) of
             Inl e \<Rightarrow> Inl e
           | Inr u \<Rightarrow>
               (case (str_field (get_default d ''finding'' (JStr ''Unknown finding'')),
                      str_field (get_default d ''detail'' (JStr [])),
                      str_field (get_default d ''source'' (JStr ''unknown''))) of
                  (Inr fi, Inr de, Inr so) \<Rightarrow>
                    Inr \<lparr>finding = fi, detail = de, urgency = u, source = so\<rparr>
                | _ \<Rightarrow> Inl ValidationError))
      | _ \<Rightarrow> Inl AttributeError)"

definition make_scan_insight :: "json \<Rightarrow> error + ScanInsight" where
  "make_scan_insight s =
     (case s of
        JObj d \<Rightarrow>
          (case (str_field (get_default d ''observation'' (JStr [])),
                 optional_str_field (get d ''region''),
                 str_field (get_default d ''note'' (JStr []))) of
             (Inr ob, Inr re, Inr no) \<Rightarrow> Inr \<lparr>observation = ob, region = re, note = no\<rparr>
           | _ \<Rightarrow> Inl ValidationError)
      | _ \<Rightarrow> Inl AttributeError)"

text \<open>
  The two \<^verbatim>\<open>try\<close> blocks of step 4: any exception while the list is built leaves the
  empty list.  \<^verbatim>\<open>raw_result.get\<close> is inside the block too.
\<close>

definition parse_items :: "(json \<Rightarrow> error + 'a) \<Rightarrow> json \<Rightarrow> string \<Rightarrow> 'a list" where
  "parse_items build raw_result key =
     (case raw_result of
        JObj d \<Rightarrow>
          (case py_iter (get_default d key (JArr [])) of
             Inl e \<Rightarrow> []
           | Inr items \<Rightarrow> (case traverse build items of Inl e \<Rightarrow> [] | Inr xs \<Rightarrow> xs))
      | _ \<Rightarrow> [])"

definition the_disclaimer :: string where
  "the_disclaimer = ''This is an assistive tool and not a medical diagnosis.''"

text \<open>Steps 4 to 6 of the route, from the service's result to the response.\<close>

definition build_doctor_response :: "json \<Rightarrow> error + DoctorAnalysisResponse" where
  "build_doctor_response raw_result =
     (let findings = parse_items make_key_finding raw_result ''key_findings'';
          insights = parse_items make_scan_insight raw_result ''scan_insights'';
          sorted_findings = sort_findings_by_urgency findings;
          ranking = map finding sorted_findings
      in case raw_result of
           JObj d \<Rightarrow>
             (case str_field (get_default d ''patient_summary''
                      (JStr ''Summary could not be generated. Please review inputs.'')) of
                Inl e \<Rightarrow> Inl e
              | Inr summary \<Rightarrow>
                  Inr \<lparr>patient_summary = summary, key_findings = sorted_findings,
                       scan_insights = insights, urgency_ranking = ranking,
                       disclaimer = the_disclaimer\<rparr>)
         | _ \<Rightarrow> Inl AttributeError)"

text \<open>
  \<^verbatim>\<open>analyze_patient_records\<close> from the point where \<^verbatim>\<open>_read_text_or_pdf\<close> and
  \<^verbatim>\<open>preprocess_image\<close> have resolved the uploads (\<open>processed_image\<close> is \<open>None\<close>
  when the request has no scan image, and when the image could not be decoded), up to
  the response; saving to the dashboard store comes after and does not change it.
\<close>

definition analyze_patient_records ::
  "'img env \<Rightarrow> string \<Rightarrow> string \<Rightarrow> string \<Rightarrow> 'img option \<Rightarrow> error + DoctorAnalysisResponse"
  where
  "analyze_patient_records e patient_history prescriptions lab_reports processed_image =
     (if patient_history = [] \<and> prescriptions = [] \<and> lab_reports = [] then
        Inl (HTTPException 422)
      else
        (case analyze_for_doctor e patient_history prescriptions lab_reports processed_image of
           Inl err \<Rightarrow> Inl err
         | Inr raw_result \<Rightarrow> build_doctor_response raw_result))"

section \<open>routes/patient.py\<close>

text \<open>
  An uploaded file as the route reads it: its size, whether its content type or name
  says PDF, and its text (what \<^verbatim>\<open>extract_text_from_pdf\<close> returns for a PDF, what
  decoding with replacement returns otherwise).
\<close>

record upload =
  size_bytes :: nat
  is_pdf :: bool
  file_text :: string

definition MAX_UPLOAD_BYTES :: nat where
  "MAX_UPLOAD_BYTES = 20 * 1024 * 1024"




definition resolve_report :: "string option \<Rightarrow> upload option \<Rightarrow> error + string" where
  "resolve_report report_text report_file =
     (case report_file of
        Some file \<Rightarrow>
          if MAX_UPLOAD_BYTES < size_bytes file then Inl (HTTPException 413)
          else if is_pdf file then
            (if file_text file = [] then Inl (HTTPException 422)
             else Inr (clean_text (file_text file)))
          else Inr (clean_text (file_text file))
      | None \<Rightarrow>
          (case report_text of
             None \<Rightarrow> Inr []
           | Some t \<Rightarrow> if t = [] then Inr [] else Inr (clean_text t)))"



section \<open>The specification's reading of the direct-JSON path\<close>




text \<open>
  The specification's order of the urgency levels, \<open>HIGH\<close> first, and its table from the
  legacy severities to them.
\<close>

fun urgency_rank :: "UrgencyLevel \<Rightarrow> nat" where
  "urgency_rank HIGH = 0"
| "urgency_rank MEDIUM = 1"
| "urgency_rank LOW = 2"

definition severity_to_urgency :: "string \<Rightarrow> UrgencyLevel" where
  "severity_to_urgency severity =
     (if severity = ''critical'' then HIGH
      else if severity = ''high'' then HIGH
      else if severity = ''medium'' then MEDIUM
      else if severity = ''low'' then LOW
      else LOW)"

section \<open>Example environments\<close>

text \<open>
  Closed environments for running the services.  In the runs below \<^verbatim>\<open>str()\<close> only
  ever meets strings, so \<open>py_repr\<close> is never consulted and is left empty.
  \<open>local_model_env raw\<close>: the legacy service cannot be reached and the loaded model
  answers \<open>raw\<close>.  \<open>legacy_env body\<close>: the legacy service answers with the bytes
  \<open>body\<close> and no model is loaded.  \<open>mock_env\<close>: the configuration of the test suite,
  \<^verbatim>\<open>FORCE_MOCK=1\<close> with no legacy service listening.
\<close>

definition no_repr :: "json \<Rightarrow> string" where
  "no_repr v = []"

definition local_model_env :: "string \<Rightarrow> unit env" where
  "local_model_env raw =
     \<lparr>AI_BACKEND_ENABLED = True, FORCE_MOCK = False, model_loaded = True,
      urlopen = (\<lambda>text mode. URLError),
      run_inference = (\<lambda>prompt message image. Inr raw),
      json_loads = json_loads_ref, py_repr = no_repr\<rparr>"

definition legacy_env :: "string \<Rightarrow> unit env" where
  "legacy_env body =
     \<lparr>AI_BACKEND_ENABLED = True, FORCE_MOCK = False, model_loaded = False,
      urlopen = (\<lambda>text mode. Body body),
      run_inference = (\<lambda>prompt message image. Inl InferenceError),
      json_loads = json_loads_ref, py_repr = no_repr\<rparr>"

definition mock_env :: "unit env" where
  "mock_env =
     \<lparr>AI_BACKEND_ENABLED = True, FORCE_MOCK = True, model_loaded = False,
      urlopen = (\<lambda>text mode. URLError),
      run_inference = (\<lambda>prompt message image. Inl InferenceError),
      json_loads = json_loads_ref, py_repr = no_repr\<rparr>"

definition legacy_body :: string where
  "legacy_body =
     ''{\"response\": \"Two findings.\", \"data\": {\"summary\": \"\", \"abnormalities\": '' @
     ''[{\"issue\": \"Y\", \"severity\": \"unknown-value\"}, '' @
     ''{\"issue\": \"X\", \"severity\": \"critical\"}]}}''"

definition legacy_payload_example :: dict where
  "legacy_payload_example =
     [(''response'', JStr ''Two findings.''),
      (''data'', JObj
         [(''summary'', JStr []),
          (''abnormalities'', JArr
             [JObj [(''issue'', JStr ''Y''), (''severity'', JStr ''unknown-value'')],
              JObj [(''issue'', JStr ''X''), (''severity'', JStr ''critical'')]])])]"

definition no_summary_payload :: dict where
  "no_summary_payload = [(''data'', JObj [(''abnormalities'', JArr [])])]"



definition unrecognised_urgency_output :: string where
  "unrecognised_urgency_output =
     ''{\"patient_summary\": \"Two findings.\", \"key_findings\": ['' @
     ''{\"finding\": \"Raised potassium\", \"detail\": \"5.9 mmol/L\", '' @
     ''\"urgency\": \"high\", \"source\": \"lab_report\"}, '' @
     ''{\"finding\": \"Possible sepsis\", \"detail\": \"Fever and tachycardia\", '' @
     ''\"urgency\": \"critical\", \"source\": \"patient_history\"}]}''"

definition missing_urgency_finding :: dict where
  "missing_urgency_finding = [(''finding'', JStr ''Old fracture''), (''source'', JStr ''scan'')]"

definition critical_abnormality :: dict where
  "critical_abnormality = [(''issue'', JStr ''X''), (''severity'', JStr ''critical'')]"

definition unknown_abnormality :: dict where
  "unknown_abnormality = [(''issue'', JStr ''Y''), (''severity'', JStr ''unknown-value'')]"


section \<open>The legacy remap\<close>

lemma traverse_Inr:
  "(\<And>x. x \<in> set xs \<Longrightarrow> f x = Inr (g x)) \<Longrightarrow> traverse f xs = Inr (map g xs)"
  by (induction xs) auto

lemma getitem_legacy_finding:
  "getitem (legacy_finding repr f) ''finding'' = Inr (get (legacy_finding repr f) ''finding'')"
  by (simp add: getitem_def get_def legacy_finding_def Let_def)

lemma legacy_findings_shape:
  "x \<in> set (legacy_findings repr items) \<Longrightarrow> \<exists>f. x = legacy_finding repr f \<and> JObj f \<in> set items"
  by (induction repr items rule: legacy_findings.induct) auto

lemma legacy_titles:
  "traverse (\<lambda>item. getitem item ''finding'') (sort_key legacy_rank (legacy_findings repr items)) =
   Inr (map (\<lambda>item. get item ''finding'') (sort_key legacy_rank (legacy_findings repr items)))"
  by (rule traverse_Inr) (auto dest!: legacy_findings_shape simp: getitem_legacy_finding)

lemma normalize_legacy_doctor_payload_dict:
  assumes "py_iter (get_default (legacy_data_of (JObj p)) ''abnormalities'' (JArr [])) = Inr items"
  shows "normalize_legacy_doctor_payload repr (JObj p) =
         Inr [(''patient_summary'',
               if truthy (get (legacy_data_of (JObj p)) ''summary'')
               then get (legacy_data_of (JObj p)) ''summary''
               else py_or (get p ''response'') (JStr mock_patient_summary)),
              (''key_findings'', JArr (map JObj (sort_key legacy_rank (legacy_findings repr items)))),
              (''scan_insights'', JArr []),
              (''urgency_ranking'',
               JArr (map (\<lambda>item. get item ''finding'')
                      (sort_key legacy_rank (legacy_findings repr items))))]"
  using assms by (simp add: normalize_legacy_doctor_payload_def Let_def legacy_titles)

lemma normalize_legacy_doctor_payload_result:
  assumes "normalize_legacy_doctor_payload repr payload = Inr d"
  shows "\<exists>summary findings.
           d = [(''patient_summary'', summary),
                (''key_findings'', JArr (map JObj findings)),
                (''scan_insights'', JArr []),
                (''urgency_ranking'', JArr (map (\<lambda>item. get item ''finding'') findings))]"
  using assms
  by (auto simp: normalize_legacy_doctor_payload_def Let_def legacy_titles
           split: sum.splits if_splits json.splits)

lemma parse_items_no_scan_insights:
  "map_of d ''scan_insights'' = Some (JArr []) \<Longrightarrow>
   parse_items make_scan_insight (JObj d) ''scan_insights'' = []"
  by (simp add: parse_items_def get_default_def)

lemma build_doctor_response_scan_insights:
  "build_doctor_response raw_result = Inr r \<Longrightarrow>
   scan_insights r = parse_items make_scan_insight raw_result ''scan_insights''"
  by (auto simp: build_doctor_response_def Let_def split: json.splits sum.splits)

lemma build_doctor_response_ranking:
  "build_doctor_response raw_result = Inr r \<Longrightarrow>
   urgency_ranking r = map finding (key_findings r)"
  by (auto simp: build_doctor_response_def Let_def split: json.splits sum.splits)

lemma map_of_dict_set_same: "map_of (dict_set d k v) k = Some v"
  by (induction d k v rule: dict_set.induct) auto

lemma analyze_for_doctor_legacy:
  assumes "call_legacy_ai_backend e (combined_text ph pr lr) ''doctor'' = Inr (Some p)"
      and "analyze_for_doctor e ph pr lr img = Inr raw_result"
  shows "\<exists>d. raw_result = JObj d \<and> map_of d ''scan_insights'' = Some (JArr [])"
proof -
  from assms obtain legacy_result where
    n: "normalize_legacy_doctor_payload (py_repr e) (JObj p) = Inr legacy_result" and
    r: "raw_result = JObj (if img = None then dict_set legacy_result ''scan_insights'' (JArr [])
                           else legacy_result)"
    by (auto simp: analyze_for_doctor_def split: sum.splits)
  from normalize_legacy_doctor_payload_result [OF n]
  have "map_of legacy_result ''scan_insights'' = Some (JArr [])" by auto
  with r show ?thesis by (auto simp: map_of_dict_set_same)
qed

text \<open>
  C10.  Whatever the legacy payload, the result of the doctor-path remap has an empty
  \<open>scan_insights\<close> list, and so has what \<^verbatim>\<open>analyze_for_doctor\<close> and the route return
  on the legacy path, with or without an image in the request.  The remap does return
  for every payload whose \<^verbatim>\<open>abnormalities\<close> can be iterated.
\<close>

theorem legacy_scan_insights_empty:
  "(normalize_legacy_doctor_payload repr payload = Inr d \<longrightarrow>
      map_of d ''scan_insights'' = Some (JArr []))
   \<and> (py_iter (get_default (legacy_data_of (JObj p)) ''abnormalities'' (JArr [])) = Inr items \<longrightarrow>
      (\<exists>d'. normalize_legacy_doctor_payload repr (JObj p) = Inr d'))
   \<and> (call_legacy_ai_backend e (combined_text ph pr lr) ''doctor'' = Inr (Some p') \<and>
      analyze_for_doctor e ph pr lr img = Inr raw_result \<longrightarrow>
      (\<exists>d'. raw_result = JObj d' \<and> map_of d' ''scan_insights'' = Some (JArr [])))
   \<and> (call_legacy_ai_backend e (combined_text ph pr lr) ''doctor'' = Inr (Some p') \<and>
      analyze_patient_records e ph pr lr img = Inr r \<longrightarrow>
      scan_insights r = [])"
proof (intro conjI impI)
  assume "normalize_legacy_doctor_payload repr payload = Inr d"
  from normalize_legacy_doctor_payload_result [OF this]
  show "map_of d ''scan_insights'' = Some (JArr [])" by auto
next
  assume "py_iter (get_default (legacy_data_of (JObj p)) ''abnormalities'' (JArr [])) = Inr items"
  from normalize_legacy_doctor_payload_dict [OF this]
  show "\<exists>d'. normalize_legacy_doctor_payload repr (JObj p) = Inr d'" by blast
next
  assume "call_legacy_ai_backend e (combined_text ph pr lr) ''doctor'' = Inr (Some p') \<and>
          analyze_for_doctor e ph pr lr img = Inr raw_result"
  then show "\<exists>d'. raw_result = JObj d' \<and> map_of d' ''scan_insights'' = Some (JArr [])"
    using analyze_for_doctor_legacy by blast
next
  assume a: "call_legacy_ai_backend e (combined_text ph pr lr) ''doctor'' = Inr (Some p') \<and>
             analyze_patient_records e ph pr lr img = Inr r"
  then obtain raw where raw: "analyze_for_doctor e ph pr lr img = Inr raw"
    and b: "build_doctor_response raw = Inr r"
    by (auto simp: analyze_patient_records_def split: if_splits sum.splits)
  from a raw obtain d' where "raw = JObj d'" "map_of d' ''scan_insights'' = Some (JArr [])"
    using analyze_for_doctor_legacy by blast
  with b show "scan_insights r = []"
    by (simp add: build_doctor_response_scan_insights parse_items_no_scan_insights)
qed

lemma legacy_body_call:
  "call_legacy_ai_backend (legacy_env legacy_body) (combined_text [] [] ''Creatinine 1.8 mg/dL'')
     ''doctor'' = Inr (Some legacy_payload_example)"
  by code_simp

theorem legacy_scan_insights_empty_witness:
  "call_legacy_ai_backend (legacy_env legacy_body) (combined_text [] [] ''Creatinine 1.8 mg/dL'')
     ''doctor'' = Inr (Some legacy_payload_example)
   \<and> map_sum id scan_insights
       (analyze_patient_records (legacy_env legacy_body) [] [] ''Creatinine 1.8 mg/dL'' (Some ()))
     = Inr []"
proof -
  define r where "r =
    \<lparr>patient_summary = ''Two findings.'',
     key_findings =
       [\<lparr>finding = ''X'', detail = ''Derived from AI_Backend analysis.'', urgency = HIGH,
          source = ''legacy_ai_backend''\<rparr>,
        \<lparr>finding = ''Y'', detail = ''Derived from AI_Backend analysis.'', urgency = LOW,
          source = ''legacy_ai_backend''\<rparr>],
     scan_insights = [], urgency_ranking = [''X'', ''Y''], disclaimer = the_disclaimer\<rparr>"
  have r: "analyze_patient_records (legacy_env legacy_body) [] [] ''Creatinine 1.8 mg/dL''
             (Some ()) = Inr r"
    unfolding r_def by code_simp
  from legacy_scan_insights_empty [where e = "legacy_env legacy_body" and ph = "[]" and pr = "[]"
      and lr = "''Creatinine 1.8 mg/dL''" and img = "Some ()" and p' = legacy_payload_example
      and r = r] legacy_body_call r
  have "scan_insights r = []" by blast
  with r legacy_body_call show ?thesis by simp
qed


text \<open>
  C8 (as amended).  When the \<^verbatim>\<open>data\<close> of a legacy payload carries no usable summary
  (none, or a falsy one) and its \<^verbatim>\<open>abnormalities\<close> can be iterated, the remap returns
  a result whose \<open>patient_summary\<close> is the payload's top-level \<^verbatim>\<open>response\<close> when that
  is truthy, and the mock placeholder summary otherwise.
\<close>

theorem legacy_summary_substitution:
  "\<not> truthy (get (legacy_data_of (JObj p)) ''summary'') \<and>
   py_iter (get_default (legacy_data_of (JObj p)) ''abnormalities'' (JArr [])) = Inr items \<longrightarrow>
   (\<exists>d. normalize_legacy_doctor_payload repr (JObj p) = Inr d \<and>
        map_of d ''patient_summary'' =
          Some (if truthy (get p ''response'') then get p ''response''
                else JStr mock_patient_summary))"
  by (auto simp: normalize_legacy_doctor_payload_dict py_or_def)

theorem legacy_summary_substitution_counterexample:
  "normalize_legacy_doctor_payload no_repr (JObj legacy_payload_example) =
     Inr [(''patient_summary'', JStr ''Two findings.''),
          (''key_findings'', JArr
             [JObj [(''finding'', JStr ''X''),
                    (''detail'', JStr ''Derived from AI_Backend analysis.''),
                    (''urgency'', JStr ''high''),
                    (''source'', JStr ''legacy_ai_backend'')],
              JObj [(''finding'', JStr ''Y''),
                    (''detail'', JStr ''Derived from AI_Backend analysis.''),
                    (''urgency'', JStr ''low''),
                    (''source'', JStr ''legacy_ai_backend'')]]),
          (''scan_insights'', JArr []),
          (''urgency_ranking'', JArr [JStr ''X'', JStr ''Y''])]
   \<and> get (legacy_data_of (JObj legacy_payload_example)) ''summary'' = JStr []
   \<and> JStr ''Two findings.'' \<noteq> JStr mock_patient_summary"
  by code_simp

theorem legacy_summary_substitution_witness:
  "\<not> truthy (get (legacy_data_of (JObj no_summary_payload)) ''summary'')
   \<and> py_iter (get_default (legacy_data_of (JObj no_summary_payload)) ''abnormalities'' (JArr []))
       = Inr []
   \<and> normalize_legacy_doctor_payload no_repr (JObj no_summary_payload) =
       Inr [(''patient_summary'', JStr mock_patient_summary),
            (''key_findings'', JArr []),
            (''scan_insights'', JArr []),
            (''urgency_ranking'', JArr [])]"
proof -
  have h: "\<not> truthy (get (legacy_data_of (JObj no_summary_payload)) ''summary'') \<and>
        py_iter (get_default (legacy_data_of (JObj no_summary_payload)) ''abnormalities'' (JArr []))
          = Inr []"
    by code_simp
  from legacy_summary_substitution [where p = no_summary_payload and items = "[]"
      and repr = no_repr] h
  obtain d where "normalize_legacy_doctor_payload no_repr (JObj no_summary_payload) = Inr d"
    by blast
  moreover have "normalize_legacy_doctor_payload no_repr (JObj no_summary_payload) =
       Inr [(''patient_summary'', JStr mock_patient_summary),
            (''key_findings'', JArr []),
            (''scan_insights'', JArr []),
            (''urgency_ranking'', JArr [])]"
    by code_simp
  ultimately show ?thesis using h by simp
qed

section \<open>The ranking of the response\<close>

text \<open>
  C4.  In every response the route builds, \<open>urgency_ranking\<close> is the list of the
  titles of \<open>key_findings\<close> in the same order; and in every result of the legacy remap
  the \<^verbatim>\<open>urgency_ranking\<close> entry lists the \<^verbatim>\<open>finding\<close> of each entry of
  \<^verbatim>\<open>key_findings\<close>, in order.
\<close>

theorem urgency_ranking_mirrors_key_findings:
  "(build_doctor_response raw_result = Inr r \<longrightarrow>
      urgency_ranking r = map finding (key_findings r))
   \<and> (analyze_patient_records e ph pr lr img = Inr r' \<longrightarrow>
      urgency_ranking r' = map finding (key_findings r'))
   \<and> (normalize_legacy_doctor_payload repr payload = Inr d \<longrightarrow>
      (\<exists>findings.
         map_of d ''key_findings'' = Some (JArr (map JObj findings)) \<and>
         map_of d ''urgency_ranking'' =
           Some (JArr (map (\<lambda>item. get item ''finding'') findings))))"
proof (intro conjI impI)
  assume "build_doctor_response raw_result = Inr r"
  then show "urgency_ranking r = map finding (key_findings r)"
    by (rule build_doctor_response_ranking)
next
  assume "analyze_patient_records e ph pr lr img = Inr r'"
  then obtain raw where "build_doctor_response raw = Inr r'"
    by (auto simp: analyze_patient_records_def split: if_splits sum.splits)
  then show "urgency_ranking r' = map finding (key_findings r')"
    by (rule build_doctor_response_ranking)
next
  assume "normalize_legacy_doctor_payload repr payload = Inr d"
  from normalize_legacy_doctor_payload_result [OF this]
  show "\<exists>findings.
          map_of d ''key_findings'' = Some (JArr (map JObj findings)) \<and>
          map_of d ''urgency_ranking'' = Some (JArr (map (\<lambda>item. get item ''finding'') findings))"
    by auto
qed

theorem urgency_ranking_mirrors_key_findings_witness:
  "analyze_patient_records mock_env ''Test patient.'' [] [] None =
     Inr \<lparr>patient_summary = mock_patient_summary,
          key_findings =
            [\<lparr>finding = ''[MOCK] Elevated Creatinine'',
               detail = ''Lab report indicates possible renal stress markers.'',
               urgency = HIGH, source = ''lab_report''\<rparr>,
             \<lparr>finding = ''[MOCK] Hypertension History'',
               detail = ''Patient history notes long-standing hypertension.'',
               urgency = MEDIUM, source = ''patient_history''\<rparr>,
             \<lparr>finding = ''[MOCK] Routine Follow-up Due'',
               detail = ''Annual cardiology review overdue by 3 months.'',
               urgency = LOW, source = ''prescription''\<rparr>],
          scan_insights = [],
          urgency_ranking =
            [''[MOCK] Elevated Creatinine'', ''[MOCK] Hypertension History'',
             ''[MOCK] Routine Follow-up Due''],
          disclaimer = the_disclaimer\<rparr>
   \<and> map_sum id (\<lambda>r. urgency_ranking r = map finding (key_findings r))
         (analyze_patient_records mock_env ''Test patient.'' [] [] None) = Inr True"
proof -
  define r where "r =
     \<lparr>patient_summary = mock_patient_summary,
          key_findings =
            [\<lparr>finding = ''[MOCK] Elevated Creatinine'',
               detail = ''Lab report indicates possible renal stress markers.'',
               urgency = HIGH, source = ''lab_report''\<rparr>,
             \<lparr>finding = ''[MOCK] Hypertension History'',
               detail = ''Patient history notes long-standing hypertension.'',
               urgency = MEDIUM, source = ''patient_history''\<rparr>,
             \<lparr>finding = ''[MOCK] Routine Follow-up Due'',
               detail = ''Annual cardiology review overdue by 3 months.'',
               urgency = LOW, source = ''prescription''\<rparr>],
          scan_insights = [],
          urgency_ranking =
            [''[MOCK] Elevated Creatinine'', ''[MOCK] Hypertension History'',
             ''[MOCK] Routine Follow-up Due''],
          disclaimer = the_disclaimer\<rparr>"
  have run: "analyze_patient_records mock_env ''Test patient.'' [] [] None = Inr r"
    unfolding r_def by code_simp
  from urgency_ranking_mirrors_key_findings [where e = mock_env and ph = "''Test patient.''"
      and pr = "[]" and lr = "[]" and img = None and r' = r] run
  have "urgency_ranking r = map finding (key_findings r)" by blast
  with run show ?thesis unfolding r_def by simp
qed

section \<open>The legacy call\<close>

text \<open>
  The outcomes the \<^verbatim>\<open>except\<close> clause of \<^verbatim>\<open>_call_legacy_ai_backend\<close> covers, a
  body that is text but not JSON or not an object included, all give \<^verbatim>\<open>None\<close>.
\<close>

lemma call_legacy_ai_backend_unavailable:
  assumes "urlopen e text mode = URLError \<or> urlopen e text mode = TimeoutError \<or>
           (\<exists>body. urlopen e text mode = Body body \<and> utf8_valid body \<and>
              (json_loads e body = None \<or>
               (\<exists>v. json_loads e body = Some v \<and> \<not> is_dict v)))"
  shows "call_legacy_ai_backend e text mode = Inr None"
  using assms
  by (auto simp: call_legacy_ai_backend_def decode_utf8_def split: json.splits)

text \<open>
  C7.  Every outcome of the legacy call should count as unavailable, and none should
  raise.  A response body that is not valid UTF-8 (a single byte \<^verbatim>\<open>0xFF\<close>) makes
  \<^verbatim>\<open>decode("utf-8")\<close> raise \<^verbatim>\<open>UnicodeDecodeError\<close>, which the \<^verbatim>\<open>except\<close>
  clause does not list: it leaves the call, the service and the route.
\<close>

theorem legacy_call_raises_on_undecodable_body:
  "call_legacy_ai_backend (legacy_env [CHR 0xFF]) (combined_text [] [] ''Creatinine 1.8 mg/dL'')
     ''doctor'' = Inl UnicodeDecodeError
   \<and> analyze_patient_records (legacy_env [CHR 0xFF]) [] [] ''Creatinine 1.8 mg/dL'' None =
       Inl UnicodeDecodeError"
  by code_simp

section \<open>Scan insights without an image\<close>

text \<open>
  On the mock path the service clears \<open>scan_insights\<close> when the request has no image
  (and the legacy path does, see C10).
\<close>

lemma no_image_cleared_on_mock_path:
  assumes "call_legacy_ai_backend e (combined_text ph pr lr) ''doctor'' = Inr None"
      and "\<not> model_loaded e \<or> FORCE_MOCK e"
      and "analyze_patient_records e ph pr lr None = Inr r"
  shows "scan_insights r = []"
proof -
  from assms have "build_doctor_response
      (JObj (dict_set mock_doctor_response ''scan_insights'' (JArr []))) = Inr r"
    by (auto simp: analyze_patient_records_def analyze_for_doctor_def split: if_splits)
  then show ?thesis
    by (simp add: build_doctor_response_scan_insights parse_items_no_scan_insights
          map_of_dict_set_same)
qed

text \<open>
  C1.  On the local-model path nothing clears \<open>scan_insights\<close>: with no image in the
  request and a model output that holds no JSON, the fallback payload is returned as it
  is, and the response carries the mock scan insight.
\<close>

theorem scan_insights_without_image_on_model_path:
  "analyze_for_doctor (local_model_env ''I cannot help with that.'') [] []
     ''Creatinine 1.8 mg/dL'' None = Inr (JObj mock_doctor_response)
   \<and> map_sum id scan_insights
       (analyze_patient_records (local_model_env ''I cannot help with that.'') [] []
          ''Creatinine 1.8 mg/dL'' None) =
     Inr [\<lparr>observation = ''[MOCK] Scan received and processed.'',
           region = Some ''Unknown (mock mode)'',
           note = ''Real scan analysis requires GPU and loaded MedGemma model.''\<rparr>]"
  by code_simp

theorem scan_insights_without_image_on_model_path_witness:
  "map_sum id (\<lambda>r. scan_insights r = [])
     (analyze_patient_records (local_model_env ''I cannot help with that.'') [] []
        ''Creatinine 1.8 mg/dL'' None) = Inr False"
  using scan_insights_without_image_on_model_path
  by (cases "analyze_patient_records (local_model_env ''I cannot help with that.'') [] []
        ''Creatinine 1.8 mg/dL'' None") auto

section \<open>The direct-JSON path\<close>













section \<open>The fallback payload\<close>









section \<open>Sorting the findings\<close>

lemma sort_findings_by_urgency_rank:
  "sort_findings_by_urgency findings = sort_key (\<lambda>f. urgency_rank (urgency f)) findings"
proof -
  have "(\<lambda>f::KeyFinding. case urgency_order (urgency f) of None \<Rightarrow> 99 | Some r \<Rightarrow> r) =
        (\<lambda>f. urgency_rank (urgency f))"
  proof
    fix f :: KeyFinding
    show "(case urgency_order (urgency f) of None \<Rightarrow> 99 | Some r \<Rightarrow> r) =
          urgency_rank (urgency f)"
      by (cases "urgency f") (simp_all add: urgency_order_def)
  qed
  then show ?thesis by (simp add: sort_findings_by_urgency_def)
qed

lemma urgency_rank_inj: "urgency_rank a = urgency_rank b \<longleftrightarrow> a = b"
  by (cases a; cases b) simp_all

lemma sort_findings_by_urgency_stable:
  "filter (\<lambda>f. urgency f = u) (sort_findings_by_urgency findings) =
   filter (\<lambda>f. urgency f = u) findings"
  using sort_key_stable [of "\<lambda>f. urgency_rank (urgency f)" "urgency_rank u" findings]
  by (simp add: sort_findings_by_urgency_rank urgency_rank_inj)

lemma traverse_Inl:
  "x \<in> set xs \<Longrightarrow> f x = Inl e \<Longrightarrow> \<exists>e'. traverse f xs = Inl e'"
  by (induction xs) (auto split: sum.splits)

lemma make_key_finding_unrecognised:
  "get_default d ''urgency'' (JStr ''low'') \<notin> {JStr ''high'', JStr ''medium'', JStr ''low''} \<Longrightarrow>
   make_key_finding (JObj d) = Inl ValueError"
  by (simp add: make_key_finding_def UrgencyLevel_of_def)

lemma make_key_finding_missing_urgency:
  "map_of d ''urgency'' = None \<Longrightarrow> make_key_finding (JObj d) = Inr k \<Longrightarrow> urgency k = LOW"
  by (auto simp: make_key_finding_def UrgencyLevel_of_def get_default_def
           split: sum.splits prod.splits)

lemma build_doctor_response_key_findings:
  "build_doctor_response raw_result = Inr r \<Longrightarrow>
   key_findings r = sort_findings_by_urgency (parse_items make_key_finding raw_result ''key_findings'')"
  by (auto simp: build_doctor_response_def Let_def split: json.splits sum.splits)

text \<open>
  C5 (as amended).  Sorting by urgency is stable, with \<open>HIGH\<close> before \<open>MEDIUM\<close> before
  \<open>LOW\<close>: the result is ordered by rank, is a permutation of the findings, and keeps
  the findings of each level in their original order; the route returns the findings
  it parsed, sorted so.  A finding with no urgency is given \<open>LOW\<close>.  A finding whose
  urgency is not one of \<^verbatim>\<open>high\<close>, \<^verbatim>\<open>medium\<close>, \<^verbatim>\<open>low\<close> is not treated as \<open>LOW\<close>:
  the route does not fail, but it replaces the whole list of key findings by the empty
  list.
\<close>

theorem urgency_sort_and_unrecognised_values:
  "sorted (map (\<lambda>f. urgency_rank (urgency f)) (sort_findings_by_urgency findings))
   \<and> mset (sort_findings_by_urgency findings) = mset findings
   \<and> filter (\<lambda>f. urgency f = u) (sort_findings_by_urgency findings) =
       filter (\<lambda>f. urgency f = u) findings
   \<and> (build_doctor_response raw_result = Inr r \<longrightarrow>
       key_findings r =
         sort_findings_by_urgency (parse_items make_key_finding raw_result ''key_findings''))
   \<and> (map_of d ''urgency'' = None \<and> make_key_finding (JObj d) = Inr k \<longrightarrow> urgency k = LOW)
   \<and> (map_of raw ''key_findings'' = Some (JArr items) \<and> JObj d' \<in> set items \<and>
       get_default d' ''urgency'' (JStr ''low'') \<notin> {JStr ''high'', JStr ''medium'', JStr ''low''}
       \<longrightarrow> parse_items make_key_finding (JObj raw) ''key_findings'' = [])"
proof (intro conjI impI)
  show "sorted (map (\<lambda>f. urgency_rank (urgency f)) (sort_findings_by_urgency findings))"
    by (simp add: sort_findings_by_urgency_rank)
next
  show "mset (sort_findings_by_urgency findings) = mset findings"
    by (simp add: sort_findings_by_urgency_rank)
next
  show "filter (\<lambda>f. urgency f = u) (sort_findings_by_urgency findings) =
        filter (\<lambda>f. urgency f = u) findings"
    by (rule sort_findings_by_urgency_stable)
next
  assume "build_doctor_response raw_result = Inr r"
  then show "key_findings r =
      sort_findings_by_urgency (parse_items make_key_finding raw_result ''key_findings'')"
    by (rule build_doctor_response_key_findings)
next
  assume a: "map_of d ''urgency'' = None \<and> make_key_finding (JObj d) = Inr k"
  show "urgency k = LOW"
    by (rule make_key_finding_missing_urgency [OF conjunct1 [OF a] conjunct2 [OF a]])
next
  assume a: "map_of raw ''key_findings'' = Some (JArr items) \<and> JObj d' \<in> set items \<and>
       get_default d' ''urgency'' (JStr ''low'') \<notin> {JStr ''high'', JStr ''medium'', JStr ''low''}"
  note found = conjunct1 [OF a] and member = conjunct1 [OF conjunct2 [OF a]]
    and unrecognised = conjunct2 [OF conjunct2 [OF a]]
  have "make_key_finding (JObj d') = Inl ValueError"
    by (rule make_key_finding_unrecognised [OF unrecognised])
  from traverse_Inl [where f = make_key_finding, OF member this]
  obtain e' where "traverse make_key_finding items = Inl e'" ..
  then show "parse_items make_key_finding (JObj raw) ''key_findings'' = []"
    by (simp add: parse_items_def get_default_def found)
qed

theorem urgency_sort_and_unrecognised_values_counterexample:
  "map_sum id key_findings
     (analyze_patient_records (local_model_env unrecognised_urgency_output) [] []
        ''Potassium 5.9 mmol/L'' None) = Inr []
   \<and> map_sum id urgency_ranking
     (analyze_patient_records (local_model_env unrecognised_urgency_output) [] []
        ''Potassium 5.9 mmol/L'' None) = Inr []"
  by code_simp

theorem urgency_sort_and_unrecognised_values_witness:
  "map_of missing_urgency_finding ''urgency'' = None
   \<and> make_key_finding (JObj missing_urgency_finding) =
       Inr \<lparr>finding = ''Old fracture'', detail = [], urgency = LOW, source = ''scan''\<rparr>
   \<and> sort_findings_by_urgency
       [\<lparr>finding = ''a'', detail = [], urgency = LOW, source = ''s''\<rparr>,
        \<lparr>finding = ''b'', detail = [], urgency = HIGH, source = ''s''\<rparr>,
        \<lparr>finding = ''c'', detail = [], urgency = LOW, source = ''s''\<rparr>,
        \<lparr>finding = ''d'', detail = [], urgency = MEDIUM, source = ''s''\<rparr>,
        \<lparr>finding = ''e'', detail = [], urgency = HIGH, source = ''s''\<rparr>] =
       [\<lparr>finding = ''b'', detail = [], urgency = HIGH, source = ''s''\<rparr>,
        \<lparr>finding = ''e'', detail = [], urgency = HIGH, source = ''s''\<rparr>,
        \<lparr>finding = ''d'', detail = [], urgency = MEDIUM, source = ''s''\<rparr>,
        \<lparr>finding = ''a'', detail = [], urgency = LOW, source = ''s''\<rparr>,
        \<lparr>finding = ''c'', detail = [], urgency = LOW, source = ''s''\<rparr>]"
proof -
  define k where "k = \<lparr>finding = ''Old fracture'', detail = [], urgency = LOW, source = ''scan''\<rparr>"
  have h: "map_of missing_urgency_finding ''urgency'' = None"
    by code_simp
  have m: "make_key_finding (JObj missing_urgency_finding) = Inr k"
    unfolding k_def by code_simp
  from urgency_sort_and_unrecognised_values [where d = missing_urgency_finding and k = k] h m
  have "urgency k = LOW" by blast
  moreover have "sort_findings_by_urgency
       [\<lparr>finding = ''a'', detail = [], urgency = LOW, source = ''s''\<rparr>,
        \<lparr>finding = ''b'', detail = [], urgency = HIGH, source = ''s''\<rparr>,
        \<lparr>finding = ''c'', detail = [], urgency = LOW, source = ''s''\<rparr>,
        \<lparr>finding = ''d'', detail = [], urgency = MEDIUM, source = ''s''\<rparr>,
        \<lparr>finding = ''e'', detail = [], urgency = HIGH, source = ''s''\<rparr>] =
       [\<lparr>finding = ''b'', detail = [], urgency = HIGH, source = ''s''\<rparr>,
        \<lparr>finding = ''e'', detail = [], urgency = HIGH, source = ''s''\<rparr>,
        \<lparr>finding = ''d'', detail = [], urgency = MEDIUM, source = ''s''\<rparr>,
        \<lparr>finding = ''a'', detail = [], urgency = LOW, source = ''s''\<rparr>,
        \<lparr>finding = ''c'', detail = [], urgency = LOW, source = ''s''\<rparr>]"
    by code_simp
  ultimately show ?thesis using h m unfolding k_def by simp
qed

section \<open>Legacy severities\<close>

lemma make_key_finding_legacy:
  assumes "str_field (get_default f ''issue'' (JStr ''Unknown finding'')) = Inr title"
      and "str_field (get_default f ''explanation'' (JStr ''Derived from AI_Backend analysis.''))
           = Inr evidence"
  shows "make_key_finding (JObj (legacy_finding repr f)) =
         Inr \<lparr>finding = title, detail = evidence,
              urgency = severity_to_urgency
                (lower (py_str repr (get_default f ''severity'' (JStr ''low'')))),
              source = ''legacy_ai_backend''\<rparr>"
proof -
  let ?s = "lower (py_str repr (get_default f ''severity'' (JStr ''low'')))"
  have u: "UrgencyLevel_of (JStr (case map_of urgency_map ?s of None \<Rightarrow> ''low'' | Some u \<Rightarrow> u)) =
           Inr (severity_to_urgency ?s)"
    by (simp add: urgency_map_def UrgencyLevel_of_def severity_to_urgency_def)
  show ?thesis
    using assms u
    by (simp add: make_key_finding_def legacy_finding_def Let_def get_default_def)
qed

lemma normalize_legacy_key_findings:
  assumes "py_iter (get_default (legacy_data_of (JObj p)) ''abnormalities'' (JArr [])) = Inr items"
  shows "\<exists>d. normalize_legacy_doctor_payload repr (JObj p) = Inr d \<and>
             map_of d ''key_findings'' =
               Some (JArr (map JObj (sort_key legacy_rank (legacy_findings repr items))))"
  by (simp add: normalize_legacy_doctor_payload_dict [OF assms])


lemma legacy_findings_member:
  "JObj g \<in> set items \<Longrightarrow> legacy_finding repr g \<in> set (legacy_findings repr items)"
  by (induction repr items rule: legacy_findings.induct) auto

lemma legacy_findings_iff:
  "x \<in> set (sort_key legacy_rank (legacy_findings repr items)) \<longleftrightarrow>
   (\<exists>g. x = legacy_finding repr g \<and> JObj g \<in> set items)"
proof
  assume "x \<in> set (sort_key legacy_rank (legacy_findings repr items))"
  then have "x \<in> set (legacy_findings repr items)" by simp
  then show "\<exists>g. x = legacy_finding repr g \<and> JObj g \<in> set items"
    by (rule legacy_findings_shape)
next
  assume "\<exists>g. x = legacy_finding repr g \<and> JObj g \<in> set items"
  then obtain g where "x = legacy_finding repr g" and "JObj g \<in> set items" by blast
  then have "x \<in> set (legacy_findings repr items)"
    by (simp add: legacy_findings_member)
  then show "x \<in> set (sort_key legacy_rank (legacy_findings repr items))" by simp
qed

lemma legacy_finding_source:
  "map_of (legacy_finding repr f) ''source'' = Some (JStr ''legacy_ai_backend'')"
  by (simp add: legacy_finding_def Let_def)

lemma severity_table:
  "severity_to_urgency ''critical'' = HIGH \<and> severity_to_urgency ''high'' = HIGH
   \<and> severity_to_urgency ''medium'' = MEDIUM \<and> severity_to_urgency ''low'' = LOW"
  by (simp add: severity_to_urgency_def)

lemma severity_unrecognised:
  "severity \<notin> {''critical'', ''high'', ''medium'', ''low''} \<Longrightarrow>
   severity_to_urgency severity = LOW"
  by (simp add: severity_to_urgency_def)

text \<open>
  C6.  The legacy remap turns each dict of \<^verbatim>\<open>abnormalities\<close> into a finding whose
  urgency follows the table critical to \<open>HIGH\<close>, high to \<open>HIGH\<close>, medium to
  \<open>MEDIUM\<close>, low to \<open>LOW\<close>, anything else to \<open>LOW\<close> (the severity read without
  regard to letter case), and whose source is the legacy marker; the findings of the
  result are exactly these, sorted.  The route reads such a finding as a
  \<open>KeyFinding\<close> with that urgency, the issue as its title and the marker as its source:
  issue \<^verbatim>\<open>X\<close> with severity \<^verbatim>\<open>critical\<close> gives urgency \<open>HIGH\<close> and finding
  \<^verbatim>\<open>X\<close>, and severity \<^verbatim>\<open>unknown-value\<close> gives \<open>LOW\<close>.
\<close>

theorem legacy_severity_mapping:
  "(str_field (get_default f ''issue'' (JStr ''Unknown finding'')) = Inr title \<and>
    str_field (get_default f ''explanation'' (JStr ''Derived from AI_Backend analysis.''))
      = Inr evidence \<longrightarrow>
    make_key_finding (JObj (legacy_finding repr f)) =
      Inr \<lparr>finding = title, detail = evidence,
           urgency = severity_to_urgency
             (lower (py_str repr (get_default f ''severity'' (JStr ''low'')))),
           source = ''legacy_ai_backend''\<rparr>)
   \<and> (py_iter (get_default (legacy_data_of (JObj p)) ''abnormalities'' (JArr [])) = Inr items \<longrightarrow>
      (\<exists>d. normalize_legacy_doctor_payload repr (JObj p) = Inr d \<and>
           map_of d ''key_findings'' =
             Some (JArr (map JObj (sort_key legacy_rank (legacy_findings repr items))))))
   \<and> (x \<in> set (sort_key legacy_rank (legacy_findings repr items')) \<longleftrightarrow>
      (\<exists>g. x = legacy_finding repr g \<and> JObj g \<in> set items'))
   \<and> map_of (legacy_finding repr f') ''source'' = Some (JStr ''legacy_ai_backend'')
   \<and> (severity_to_urgency ''critical'' = HIGH \<and> severity_to_urgency ''high'' = HIGH
      \<and> severity_to_urgency ''medium'' = MEDIUM \<and> severity_to_urgency ''low'' = LOW)
   \<and> (severity \<notin> {''critical'', ''high'', ''medium'', ''low''} \<longrightarrow>
      severity_to_urgency severity = LOW)"
proof (intro conjI)
  show "str_field (get_default f ''issue'' (JStr ''Unknown finding'')) = Inr title \<and>
    str_field (get_default f ''explanation'' (JStr ''Derived from AI_Backend analysis.''))
      = Inr evidence \<longrightarrow>
    make_key_finding (JObj (legacy_finding repr f)) =
      Inr \<lparr>finding = title, detail = evidence,
           urgency = severity_to_urgency
             (lower (py_str repr (get_default f ''severity'' (JStr ''low'')))),
           source = ''legacy_ai_backend''\<rparr>"
    by (simp add: make_key_finding_legacy)
next
  show "py_iter (get_default (legacy_data_of (JObj p)) ''abnormalities'' (JArr [])) = Inr items \<longrightarrow>
      (\<exists>d. normalize_legacy_doctor_payload repr (JObj p) = Inr d \<and>
           map_of d ''key_findings'' =
             Some (JArr (map JObj (sort_key legacy_rank (legacy_findings repr items)))))"
    by (rule impI) (rule normalize_legacy_key_findings)
next
  show "x \<in> set (sort_key legacy_rank (legacy_findings repr items')) \<longleftrightarrow>
      (\<exists>g. x = legacy_finding repr g \<and> JObj g \<in> set items')"
    by (rule legacy_findings_iff)
next
  show "map_of (legacy_finding repr f') ''source'' = Some (JStr ''legacy_ai_backend'')"
    by (rule legacy_finding_source)
next
  show "severity \<notin> {''critical'', ''high'', ''medium'', ''low''} \<longrightarrow>
      severity_to_urgency severity = LOW"
    by (rule impI) (rule severity_unrecognised)
qed (simp_all add: severity_to_urgency_def)

theorem legacy_severity_mapping_witness:
  "str_field (get_default critical_abnormality ''issue'' (JStr ''Unknown finding'')) = Inr ''X''
   \<and> str_field (get_default critical_abnormality ''explanation''
         (JStr ''Derived from AI_Backend analysis.'')) = Inr ''Derived from AI_Backend analysis.''
   \<and> make_key_finding (JObj (legacy_finding no_repr critical_abnormality)) =
       Inr \<lparr>finding = ''X'', detail = ''Derived from AI_Backend analysis.'', urgency = HIGH,
            source = ''legacy_ai_backend''\<rparr>
   \<and> make_key_finding (JObj (legacy_finding no_repr unknown_abnormality)) =
       Inr \<lparr>finding = ''Y'', detail = ''Derived from AI_Backend analysis.'', urgency = LOW,
            source = ''legacy_ai_backend''\<rparr>
   \<and> parse_items make_key_finding
         (case normalize_legacy_doctor_payload no_repr (JObj legacy_payload_example) of
            Inr d \<Rightarrow> JObj d | Inl e \<Rightarrow> JNull) ''key_findings'' =
       [\<lparr>finding = ''X'', detail = ''Derived from AI_Backend analysis.'', urgency = HIGH,
          source = ''legacy_ai_backend''\<rparr>,
        \<lparr>finding = ''Y'', detail = ''Derived from AI_Backend analysis.'', urgency = LOW,
          source = ''legacy_ai_backend''\<rparr>]"
proof -
  have h: "str_field (get_default critical_abnormality ''issue'' (JStr ''Unknown finding''))
             = Inr ''X'' \<and>
           str_field (get_default critical_abnormality ''explanation''
             (JStr ''Derived from AI_Backend analysis.''))
             = Inr ''Derived from AI_Backend analysis.''"
    by code_simp
  have v: "severity_to_urgency
             (lower (py_str no_repr (get_default critical_abnormality ''severity'' (JStr ''low''))))
           = HIGH"
    by code_simp
  note t = legacy_severity_mapping [where f = critical_abnormality and title = "''X''"
      and evidence = "''Derived from AI_Backend analysis.''" and repr = no_repr]
  from t have "str_field (get_default critical_abnormality ''issue'' (JStr ''Unknown finding''))
             = Inr ''X'' \<and>
           str_field (get_default critical_abnormality ''explanation''
             (JStr ''Derived from AI_Backend analysis.''))
             = Inr ''Derived from AI_Backend analysis.'' \<longrightarrow>
    make_key_finding (JObj (legacy_finding no_repr critical_abnormality)) =
      Inr \<lparr>finding = ''X'', detail = ''Derived from AI_Backend analysis.'',
           urgency = severity_to_urgency
             (lower (py_str no_repr (get_default critical_abnormality ''severity'' (JStr ''low'')))),
           source = ''legacy_ai_backend''\<rparr>"
    by (rule conjunct1)
  from this h have a: "make_key_finding (JObj (legacy_finding no_repr critical_abnormality)) =
      Inr \<lparr>finding = ''X'', detail = ''Derived from AI_Backend analysis.'',
           urgency = severity_to_urgency
             (lower (py_str no_repr (get_default critical_abnormality ''severity'' (JStr ''low'')))),
           source = ''legacy_ai_backend''\<rparr>"
    by (rule mp)
  have b: "make_key_finding (JObj (legacy_finding no_repr unknown_abnormality)) =
       Inr \<lparr>finding = ''Y'', detail = ''Derived from AI_Backend analysis.'', urgency = LOW,
            source = ''legacy_ai_backend''\<rparr>"
    by code_simp
  have c: "parse_items make_key_finding
         (case normalize_legacy_doctor_payload no_repr (JObj legacy_payload_example) of
            Inr d \<Rightarrow> JObj d | Inl e \<Rightarrow> JNull) ''key_findings'' =
       [\<lparr>finding = ''X'', detail = ''Derived from AI_Backend analysis.'', urgency = HIGH,
          source = ''legacy_ai_backend''\<rparr>,
        \<lparr>finding = ''Y'', detail = ''Derived from AI_Backend analysis.'', urgency = LOW,
          source = ''legacy_ai_backend''\<rparr>]"
    by code_simp
  have a': "make_key_finding (JObj (legacy_finding no_repr critical_abnormality)) =
       Inr \<lparr>finding = ''X'', detail = ''Derived from AI_Backend analysis.'', urgency = HIGH,
            source = ''legacy_ai_backend''\<rparr>"
    by (rule a [unfolded v])
  show ?thesis
    by (intro conjI) (rule conjunct1 [OF h], rule conjunct2 [OF h], rule a', rule b, rule c)
qed

section \<open>The patient explanation\<close>











lemma resolve_report_no_input:
  "resolve_report (Some []) None = Inr [] \<and> resolve_report None None = Inr []"
  by (simp add: resolve_report_def)





end
